theory Spec2Isabelle
  imports Main "HOL-Library.Word"
begin

section \<open>The typed expression trees of the SQL layer (ExprTree.h)\<close>

subsection \<open>Return types\<close>

text \<open>\<^verbatim>\<open>enum ReturnType { stringType, intType, doubleType, boolType, errType }\<close>\<close>

datatype ReturnType = stringType | intType | doubleType | boolType | errType

text \<open>\<^verbatim>\<open>typeToString\<close>: the switch covers the five enumerators, so the trailing
  \<^verbatim>\<open>return "unknown"\<close> is never reached.\<close>

fun typeToString :: "ReturnType \<Rightarrow> string" where
  "typeToString intType = ''int''"
| "typeToString doubleType = ''double''"
| "typeToString stringType = ''string''"
| "typeToString boolType = ''bool''"
| "typeToString errType = ''error''"

subsection \<open>The catalog and the alias bindings\<close>

text \<open>
  Modelled from the spec: \<^verbatim>\<open>MyDB_AttType.h\<close> and \<^verbatim>\<open>MyDB_Table.h\<close> are absent.
  Of an attribute type the code calls \<^verbatim>\<open>isBool()\<close> and \<^verbatim>\<open>toString()\<close> only; a schema
  answers \<^verbatim>\<open>getAttByName(name)\<close> with the position and the type of the attribute, the
  position being \<^verbatim>\<open>-1\<close> when there is no such attribute (here \<open>None\<close>); a table
  answers \<^verbatim>\<open>getSchema()\<close>.
\<close>

record MyDB_AttType =
  isBool :: bool
  att_toString :: string

type_synonym MyDB_Schema = "string \<rightharpoonup> (nat \<times> MyDB_AttType)"

record MyDB_Table =
  getSchema :: MyDB_Schema

text \<open>\<^verbatim>\<open>map<string, MyDB_TablePtr> allTables\<close> and
  \<^verbatim>\<open>vector<pair<string, string>> tablesToProcess\<close>, the pairs being (table name, alias).\<close>

type_synonym catalog = "string \<rightharpoonup> MyDB_Table"
type_synonym bindings = "(string \<times> string) list"

subsection \<open>Expression nodes\<close>

text \<open>
  One constructor for each class deriving from \<^verbatim>\<open>ExprTree\<close>, with the class's fields.
  An \<^verbatim>\<open>int\<close> is a 32-bit word read as a signed number; a \<^verbatim>\<open>double\<close> is its 64-bit
  pattern. \<^verbatim>\<open>Identifier\<close> holds \<^verbatim>\<open>tableName\<close> (the alias) and \<^verbatim>\<open>attName\<close>.
\<close>

type_synonym double = "64 word"

datatype ExprTree =
    BoolLiteral bool
  | DoubleLiteral double
  | IntLiteral "32 word"
  | StringLiteral string
  | Identifier string string
  | MinusOp ExprTree ExprTree
  | PlusOp ExprTree ExprTree
  | TimesOp ExprTree ExprTree
  | DivideOp ExprTree ExprTree
  | GtOp ExprTree ExprTree
  | LtOp ExprTree ExprTree
  | NeqOp ExprTree ExprTree
  | OrOp ExprTree ExprTree
  | EqOp ExprTree ExprTree
  | NotOp ExprTree
  | SumOp ExprTree
  | AvgOp ExprTree

text \<open>
  The constructor \<^verbatim>\<open>StringLiteral (char *fromMe)\<close> overwrites the last character of
  \<^verbatim>\<open>fromMe\<close> with the terminator and copies from the second character on: what stands
  between the two delimiters. On the empty text it writes before the buffer, which is
  \<open>None\<close> here.
\<close>

definition StringLiteral_new :: "string \<Rightarrow> ExprTree option" where
  "StringLiteral_new fromMe =
     (if fromMe = [] then None else Some (StringLiteral (butlast (tl fromMe))))"

text \<open>The children of a node: \<^verbatim>\<open>lhs\<close> and \<^verbatim>\<open>rhs\<close>, or \<^verbatim>\<open>child\<close>.\<close>

fun children :: "ExprTree \<Rightarrow> ExprTree list" where
  "children (MinusOp lhs rhs) = [lhs, rhs]"
| "children (PlusOp lhs rhs) = [lhs, rhs]"
| "children (TimesOp lhs rhs) = [lhs, rhs]"
| "children (DivideOp lhs rhs) = [lhs, rhs]"
| "children (GtOp lhs rhs) = [lhs, rhs]"
| "children (LtOp lhs rhs) = [lhs, rhs]"
| "children (NeqOp lhs rhs) = [lhs, rhs]"
| "children (OrOp lhs rhs) = [lhs, rhs]"
| "children (EqOp lhs rhs) = [lhs, rhs]"
| "children (NotOp child) = [child]"
| "children (SumOp child) = [child]"
| "children (AvgOp child) = [child]"
| "children _ = []"

subsection \<open>toString\<close>

text \<open>
  \<^verbatim>\<open>std::to_string(int)\<close> prints the decimal digits, after a minus sign for a negative
  number.
\<close>

definition digit_char :: "nat \<Rightarrow> char" where
  "digit_char n = char_of (48 + n)"

fun to_string_nat :: "nat \<Rightarrow> string" where
  "to_string_nat n =
     (if n < 10 then [digit_char n] else to_string_nat (n div 10) @ [digit_char (n mod 10)])"

declare to_string_nat.simps [simp del]

definition to_string_int :: "32 word \<Rightarrow> string" where
  "to_string_int w =
     (if sint w < 0 then CHR ''-'' # to_string_nat (nat (- sint w))
      else to_string_nat (nat (sint w)))"

text \<open>
  \<^verbatim>\<open>std::to_string(double)\<close> formats a floating-point number; it is the parameter
  \<open>dts\<close> of \<open>toString\<close>.
\<close>

fun toString :: "(double \<Rightarrow> string) \<Rightarrow> ExprTree \<Rightarrow> string" where
  "toString dts (BoolLiteral myVal) = (if myVal then ''bool[true]'' else ''bool[false]'')"
| "toString dts (DoubleLiteral myVal) = ''double['' @ dts myVal @ '']''"
| "toString dts (IntLiteral myVal) = ''int['' @ to_string_int myVal @ '']''"
| "toString dts (StringLiteral myVal) = ''string['' @ myVal @ '']''"
| "toString dts (Identifier tableName attName) = ''['' @ tableName @ ''_'' @ attName @ '']''"
| "toString dts (MinusOp lhs rhs) = ''- ('' @ toString dts lhs @ '', '' @ toString dts rhs @ '')''"
| "toString dts (PlusOp lhs rhs) = ''+ ('' @ toString dts lhs @ '', '' @ toString dts rhs @ '')''"
| "toString dts (TimesOp lhs rhs) = ''* ('' @ toString dts lhs @ '', '' @ toString dts rhs @ '')''"
| "toString dts (DivideOp lhs rhs) = ''/ ('' @ toString dts lhs @ '', '' @ toString dts rhs @ '')''"
| "toString dts (GtOp lhs rhs) = ''> ('' @ toString dts lhs @ '', '' @ toString dts rhs @ '')''"
| "toString dts (LtOp lhs rhs) = ''< ('' @ toString dts lhs @ '', '' @ toString dts rhs @ '')''"
| "toString dts (NeqOp lhs rhs) = ''!= ('' @ toString dts lhs @ '', '' @ toString dts rhs @ '')''"
| "toString dts (OrOp lhs rhs) = ''|| ('' @ toString dts lhs @ '', '' @ toString dts rhs @ '')''"
| "toString dts (EqOp lhs rhs) = ''== ('' @ toString dts lhs @ '', '' @ toString dts rhs @ '')''"
| "toString dts (NotOp child) = ''!('' @ toString dts child @ '')''"
| "toString dts (SumOp child) = ''sum('' @ toString dts child @ '')''"
| "toString dts (AvgOp child) = ''avg('' @ toString dts child @ '')''"

subsection \<open>typeCheck\<close>

text \<open>
  A call of \<^verbatim>\<open>typeCheck\<close> returns a \<open>ReturnType\<close> and writes lines to \<^verbatim>\<open>cout\<close>; the
  model returns both, the lines in the order they are written.
\<close>

type_synonym checked = "ReturnType \<times> string list"

text \<open>The loop of \<^verbatim>\<open>Identifier::typeCheck\<close> over \<^verbatim>\<open>tablesToProcess\<close>: the table name
  of the first pair whose alias is \<^verbatim>\<open>tableName\<close>, \<open>None\<close> when \<^verbatim>\<open>foundAlias\<close> stays
  false.\<close>

fun findAlias :: "bindings \<Rightarrow> string \<Rightarrow> string option" where
  "findAlias [] tableName = None"
| "findAlias (p # ps) tableName =
     (if snd p = tableName then Some (fst p) else findAlias ps tableName)"

definition Identifier_typeCheck :: "catalog \<Rightarrow> bindings \<Rightarrow> string \<Rightarrow> string \<Rightarrow> checked" where
  "Identifier_typeCheck allTables tablesToProcess tableName attName =
     (case findAlias tablesToProcess tableName of
        None \<Rightarrow>
          (errType, [''ERROR: Table alias '' @ [CHR 0x27] @ tableName @ [CHR 0x27]
                       @ '' not found in query''])
      | Some actualTableName \<Rightarrow>
          (case allTables actualTableName of
             None \<Rightarrow>
               (errType, [''ERROR: Table '' @ [CHR 0x27] @ actualTableName @ [CHR 0x27]
                            @ '' not found in catalog''])
           | Some table \<Rightarrow>
               (case getSchema table attName of
                  None \<Rightarrow>
                    (errType, [''ERROR: Attribute '' @ [CHR 0x27] @ attName @ [CHR 0x27]
                                 @ '' not found in table '' @ [CHR 0x27] @ actualTableName])
                | Some (pos, attType) \<Rightarrow>
                    if isBool attType then (boolType, [])
                    else if att_toString attType = ''int'' then (intType, [])
                    else if att_toString attType = ''double'' then (doubleType, [])
                    else if att_toString attType = ''string'' then (stringType, [])
                    else (errType, []))))"

text \<open>The bodies of the operators' \<^verbatim>\<open>typeCheck\<close> after the children have been checked:
  the type returned and the lines written by the node itself.\<close>

definition MinusOp_typeCheck :: "ReturnType \<Rightarrow> ReturnType \<Rightarrow> checked" where
  "MinusOp_typeCheck leftType rightType =
     (if leftType = errType \<or> rightType = errType then (errType, [])
      else if leftType = stringType \<or> rightType = stringType
        then (errType, [''ERROR: Cannot subtract string values''])
      else if leftType = boolType \<or> rightType = boolType
        then (errType, [''ERROR: Cannot subtract bool values''])
      else if leftType = intType \<and> rightType = intType then (intType, [])
      else (doubleType, []))"

definition PlusOp_typeCheck :: "ReturnType \<Rightarrow> ReturnType \<Rightarrow> checked" where
  "PlusOp_typeCheck leftType rightType =
     (if leftType = errType \<or> rightType = errType then (errType, [])
      else if leftType = stringType \<or> rightType = stringType then (stringType, [])
      else if leftType = boolType \<or> rightType = boolType
        then (errType, [''ERROR: Cannot add bool values''])
      else if leftType = intType \<and> rightType = intType then (intType, [])
      else (doubleType, []))"

definition TimesOp_typeCheck :: "ReturnType \<Rightarrow> ReturnType \<Rightarrow> checked" where
  "TimesOp_typeCheck leftType rightType =
     (if leftType = errType \<or> rightType = errType then (errType, [])
      else if leftType = stringType \<or> rightType = stringType
        then (errType, [''ERROR: Cannot multiply string values''])
      else if leftType = boolType \<or> rightType = boolType
        then (errType, [''ERROR: Cannot multiply bool values''])
      else if leftType = intType \<and> rightType = intType then (intType, [])
      else (doubleType, []))"

definition DivideOp_typeCheck :: "ReturnType \<Rightarrow> ReturnType \<Rightarrow> checked" where
  "DivideOp_typeCheck leftType rightType =
     (if leftType = errType \<or> rightType = errType then (errType, [])
      else if leftType = stringType \<or> rightType = stringType
        then (errType, [''ERROR: Cannot divide string values''])
      else if leftType = boolType \<or> rightType = boolType
        then (errType, [''ERROR: Cannot divide bool values''])
      else (doubleType, []))"

text \<open>\<^verbatim>\<open>GtOp\<close>, \<^verbatim>\<open>LtOp\<close> and \<^verbatim>\<open>EqOp\<close> have the same body, word for word.\<close>

definition GtOp_typeCheck :: "ReturnType \<Rightarrow> ReturnType \<Rightarrow> checked" where
  "GtOp_typeCheck leftType rightType =
     (if leftType = errType \<or> rightType = errType then (errType, [])
      else if leftType = stringType \<or> rightType = stringType then
        (if leftType \<noteq> rightType
         then (errType, [''ERROR: Cannot compare incompatible types: '' @ ''left=''
                 @ typeToString leftType @ '', right='' @ typeToString rightType])
         else (boolType, []))
      else if (leftType = intType \<or> leftType = doubleType)
            \<and> (rightType = intType \<or> rightType = doubleType) then (boolType, [])
      else (errType, [''ERROR: Cannot compare incompatible types: '' @ ''left=''
                 @ typeToString leftType @ '', right='' @ typeToString rightType]))"

definition LtOp_typeCheck :: "ReturnType \<Rightarrow> ReturnType \<Rightarrow> checked" where
  "LtOp_typeCheck leftType rightType =
     (if leftType = errType \<or> rightType = errType then (errType, [])
      else if leftType = stringType \<or> rightType = stringType then
        (if leftType \<noteq> rightType
         then (errType, [''ERROR: Cannot compare incompatible types: '' @ ''left=''
                 @ typeToString leftType @ '', right='' @ typeToString rightType])
         else (boolType, []))
      else if (leftType = intType \<or> leftType = doubleType)
            \<and> (rightType = intType \<or> rightType = doubleType) then (boolType, [])
      else (errType, [''ERROR: Cannot compare incompatible types: '' @ ''left=''
                 @ typeToString leftType @ '', right='' @ typeToString rightType]))"

text \<open>In \<^verbatim>\<open>NeqOp\<close> the first message has no \<^verbatim>\<open>left=\<close>.\<close>

definition NeqOp_typeCheck :: "ReturnType \<Rightarrow> ReturnType \<Rightarrow> checked" where
  "NeqOp_typeCheck leftType rightType =
     (if leftType = errType \<or> rightType = errType then (errType, [])
      else if leftType = stringType \<or> rightType = stringType then
        (if leftType \<noteq> rightType
         then (errType, [''ERROR: Cannot compare incompatible types: ''
                 @ typeToString leftType @ '', right='' @ typeToString rightType])
         else (boolType, []))
      else if (leftType = intType \<or> leftType = doubleType)
            \<and> (rightType = intType \<or> rightType = doubleType) then (boolType, [])
      else (errType, [''ERROR: Cannot compare incompatible types: '' @ ''left=''
                 @ typeToString leftType @ '', right='' @ typeToString rightType]))"

definition OrOp_typeCheck :: "ReturnType \<Rightarrow> ReturnType \<Rightarrow> checked" where
  "OrOp_typeCheck leftType rightType =
     (if leftType = errType \<or> rightType = errType then (errType, [])
      else if leftType \<noteq> boolType \<or> rightType \<noteq> boolType
        then (errType, [''ERROR: OR operator requires boolean operands, but got ''
                @ typeToString leftType @ '' and '' @ typeToString rightType @ ''.''])
      else (boolType, []))"

definition EqOp_typeCheck :: "ReturnType \<Rightarrow> ReturnType \<Rightarrow> checked" where
  "EqOp_typeCheck leftType rightType =
     (if leftType = errType \<or> rightType = errType then (errType, [])
      else if leftType = stringType \<or> rightType = stringType then
        (if leftType \<noteq> rightType
         then (errType, [''ERROR: Cannot compare incompatible types: '' @ ''left=''
                 @ typeToString leftType @ '', right='' @ typeToString rightType])
         else (boolType, []))
      else if (leftType = intType \<or> leftType = doubleType)
            \<and> (rightType = intType \<or> rightType = doubleType) then (boolType, [])
      else (errType, [''ERROR: Cannot compare incompatible types: '' @ ''left=''
                 @ typeToString leftType @ '', right='' @ typeToString rightType]))"

definition NotOp_typeCheck :: "ReturnType \<Rightarrow> checked" where
  "NotOp_typeCheck childType =
     (if childType = errType then (errType, [])
      else if childType \<noteq> boolType
        then (errType, [''ERROR: NOT operator requires a boolean expression, but got type ''
                @ typeToString childType])
      else (boolType, []))"

text \<open>\<^verbatim>\<open>SumOp\<close> and \<^verbatim>\<open>AvgOp\<close> print \<^verbatim>\<open>child->toString()\<close>, here \<open>childString\<close>.\<close>

definition SumOp_typeCheck :: "string \<Rightarrow> ReturnType \<Rightarrow> checked" where
  "SumOp_typeCheck childString childType =
     (if childType = errType then (errType, [])
      else if childType = stringType \<or> childType = boolType
        then (errType, [''ERROR: Cannot apply SUM to non-numeric attribute: '' @ childString])
      else (childType, []))"

definition AvgOp_typeCheck :: "string \<Rightarrow> ReturnType \<Rightarrow> checked" where
  "AvgOp_typeCheck childString childType =
     (if childType = errType then (errType, [])
      else if childType = stringType \<or> childType = boolType
        then (errType, [''ERROR: Cannot apply AVG to non-numeric attribute: '' @ childString])
      else (doubleType, []))"

text \<open>A binary node checks \<^verbatim>\<open>lhs\<close>, then \<^verbatim>\<open>rhs\<close>, then runs its body; a unary node
  checks \<^verbatim>\<open>child\<close>, then runs its body.\<close>

definition binary :: "(ReturnType \<Rightarrow> ReturnType \<Rightarrow> checked) \<Rightarrow> checked \<Rightarrow> checked \<Rightarrow> checked" where
  "binary body l r =
     (case body (fst l) (fst r) of (t, out) \<Rightarrow> (t, snd l @ snd r @ out))"

definition unary :: "(ReturnType \<Rightarrow> checked) \<Rightarrow> checked \<Rightarrow> checked" where
  "unary body c = (case body (fst c) of (t, out) \<Rightarrow> (t, snd c @ out))"

fun typeCheck :: "(double \<Rightarrow> string) \<Rightarrow> catalog \<Rightarrow> bindings \<Rightarrow> ExprTree \<Rightarrow> checked" where
  "typeCheck dts allTables tablesToProcess (BoolLiteral myVal) = (boolType, [])"
| "typeCheck dts allTables tablesToProcess (DoubleLiteral myVal) = (doubleType, [])"
| "typeCheck dts allTables tablesToProcess (IntLiteral myVal) = (intType, [])"
| "typeCheck dts allTables tablesToProcess (StringLiteral myVal) = (stringType, [])"
| "typeCheck dts allTables tablesToProcess (Identifier tableName attName) =
     Identifier_typeCheck allTables tablesToProcess tableName attName"
| "typeCheck dts allTables tablesToProcess (MinusOp lhs rhs) =
     binary MinusOp_typeCheck (typeCheck dts allTables tablesToProcess lhs)
       (typeCheck dts allTables tablesToProcess rhs)"
| "typeCheck dts allTables tablesToProcess (PlusOp lhs rhs) =
     binary PlusOp_typeCheck (typeCheck dts allTables tablesToProcess lhs)
       (typeCheck dts allTables tablesToProcess rhs)"
| "typeCheck dts allTables tablesToProcess (TimesOp lhs rhs) =
     binary TimesOp_typeCheck (typeCheck dts allTables tablesToProcess lhs)
       (typeCheck dts allTables tablesToProcess rhs)"
| "typeCheck dts allTables tablesToProcess (DivideOp lhs rhs) =
     binary DivideOp_typeCheck (typeCheck dts allTables tablesToProcess lhs)
       (typeCheck dts allTables tablesToProcess rhs)"
| "typeCheck dts allTables tablesToProcess (GtOp lhs rhs) =
     binary GtOp_typeCheck (typeCheck dts allTables tablesToProcess lhs)
       (typeCheck dts allTables tablesToProcess rhs)"
| "typeCheck dts allTables tablesToProcess (LtOp lhs rhs) =
     binary LtOp_typeCheck (typeCheck dts allTables tablesToProcess lhs)
       (typeCheck dts allTables tablesToProcess rhs)"
| "typeCheck dts allTables tablesToProcess (NeqOp lhs rhs) =
     binary NeqOp_typeCheck (typeCheck dts allTables tablesToProcess lhs)
       (typeCheck dts allTables tablesToProcess rhs)"
| "typeCheck dts allTables tablesToProcess (OrOp lhs rhs) =
     binary OrOp_typeCheck (typeCheck dts allTables tablesToProcess lhs)
       (typeCheck dts allTables tablesToProcess rhs)"
| "typeCheck dts allTables tablesToProcess (EqOp lhs rhs) =
     binary EqOp_typeCheck (typeCheck dts allTables tablesToProcess lhs)
       (typeCheck dts allTables tablesToProcess rhs)"
| "typeCheck dts allTables tablesToProcess (NotOp child) =
     unary NotOp_typeCheck (typeCheck dts allTables tablesToProcess child)"
| "typeCheck dts allTables tablesToProcess (SumOp child) =
     unary (SumOp_typeCheck (toString dts child)) (typeCheck dts allTables tablesToProcess child)"
| "typeCheck dts allTables tablesToProcess (AvgOp child) =
     unary (AvgOp_typeCheck (toString dts child)) (typeCheck dts allTables tablesToProcess child)"

subsection \<open>isAggregate and getReferencedAttributes\<close>

text \<open>The base class answers \<^verbatim>\<open>false\<close>; the four arithmetic operators and the two
  aggregates override it.\<close>

fun isAggregate :: "ExprTree \<Rightarrow> bool" where
  "isAggregate (MinusOp lhs rhs) = (isAggregate lhs \<or> isAggregate rhs)"
| "isAggregate (PlusOp lhs rhs) = (isAggregate lhs \<or> isAggregate rhs)"
| "isAggregate (TimesOp lhs rhs) = (isAggregate lhs \<or> isAggregate rhs)"
| "isAggregate (DivideOp lhs rhs) = (isAggregate lhs \<or> isAggregate rhs)"
| "isAggregate (SumOp child) = True"
| "isAggregate (AvgOp child) = True"
| "isAggregate _ = False"

text \<open>The base class leaves \<^verbatim>\<open>atts\<close> as it is (``this expression refers to no
  attributes''); \<^verbatim>\<open>Identifier\<close> and the four arithmetic operators override it. The set
  is passed by reference: the model takes it and returns it updated.\<close>

fun getReferencedAttributes :: "ExprTree \<Rightarrow> (string \<times> string) set \<Rightarrow> (string \<times> string) set" where
  "getReferencedAttributes (Identifier tableName attName) atts = insert (tableName, attName) atts"
| "getReferencedAttributes (MinusOp lhs rhs) atts =
     getReferencedAttributes rhs (getReferencedAttributes lhs atts)"
| "getReferencedAttributes (PlusOp lhs rhs) atts =
     getReferencedAttributes rhs (getReferencedAttributes lhs atts)"
| "getReferencedAttributes (TimesOp lhs rhs) atts =
     getReferencedAttributes rhs (getReferencedAttributes lhs atts)"
| "getReferencedAttributes (DivideOp lhs rhs) atts =
     getReferencedAttributes rhs (getReferencedAttributes lhs atts)"
| "getReferencedAttributes _ atts = atts"

section \<open>Notions of the specification\<close>

text \<open>The two numeric kinds.\<close>

definition numeric :: "ReturnType \<Rightarrow> bool" where
  "numeric t = (t = intType \<or> t = doubleType)"

text \<open>
  The specification's reading of the referenced attributes: the (alias, attribute) pair
  of every attribute reference reachable from the node through any children.
\<close>

fun spec_attributeRefs :: "ExprTree \<Rightarrow> (string \<times> string) set" where
  "spec_attributeRefs (Identifier tableName attName) = {(tableName, attName)}"
| "spec_attributeRefs e = (\<Union>c \<in> set (children e). spec_attributeRefs c)"

text \<open>Trees of literals and attribute references under plus, minus, times and divide
  only.\<close>

fun arithmetic_only :: "ExprTree \<Rightarrow> bool" where
  "arithmetic_only (MinusOp lhs rhs) = (arithmetic_only lhs \<and> arithmetic_only rhs)"
| "arithmetic_only (PlusOp lhs rhs) = (arithmetic_only lhs \<and> arithmetic_only rhs)"
| "arithmetic_only (TimesOp lhs rhs) = (arithmetic_only lhs \<and> arithmetic_only rhs)"
| "arithmetic_only (DivideOp lhs rhs) = (arithmetic_only lhs \<and> arithmetic_only rhs)"
| "arithmetic_only (GtOp lhs rhs) = False"
| "arithmetic_only (LtOp lhs rhs) = False"
| "arithmetic_only (NeqOp lhs rhs) = False"
| "arithmetic_only (OrOp lhs rhs) = False"
| "arithmetic_only (EqOp lhs rhs) = False"
| "arithmetic_only (NotOp child) = False"
| "arithmetic_only (SumOp child) = False"
| "arithmetic_only (AvgOp child) = False"
| "arithmetic_only _ = True"

text \<open>
  Trees whose leaves cannot be mistaken for the delimiters of \<open>toString\<close>: no \<open>]\<close> in a
  string literal, in an attribute name or in the text of a double, and no \<open>_\<close> in an
  alias.
\<close>

fun delimiter_free :: "(double \<Rightarrow> string) \<Rightarrow> ExprTree \<Rightarrow> bool" where
  "delimiter_free dts (BoolLiteral myVal) = True"
| "delimiter_free dts (DoubleLiteral myVal) = (CHR '']'' \<notin> set (dts myVal))"
| "delimiter_free dts (IntLiteral myVal) = True"
| "delimiter_free dts (StringLiteral myVal) = (CHR '']'' \<notin> set myVal)"
| "delimiter_free dts (Identifier tableName attName) =
     (CHR ''_'' \<notin> set tableName \<and> CHR '']'' \<notin> set attName)"
| "delimiter_free dts (MinusOp lhs rhs) = (delimiter_free dts lhs \<and> delimiter_free dts rhs)"
| "delimiter_free dts (PlusOp lhs rhs) = (delimiter_free dts lhs \<and> delimiter_free dts rhs)"
| "delimiter_free dts (TimesOp lhs rhs) = (delimiter_free dts lhs \<and> delimiter_free dts rhs)"
| "delimiter_free dts (DivideOp lhs rhs) = (delimiter_free dts lhs \<and> delimiter_free dts rhs)"
| "delimiter_free dts (GtOp lhs rhs) = (delimiter_free dts lhs \<and> delimiter_free dts rhs)"
| "delimiter_free dts (LtOp lhs rhs) = (delimiter_free dts lhs \<and> delimiter_free dts rhs)"
| "delimiter_free dts (NeqOp lhs rhs) = (delimiter_free dts lhs \<and> delimiter_free dts rhs)"
| "delimiter_free dts (OrOp lhs rhs) = (delimiter_free dts lhs \<and> delimiter_free dts rhs)"
| "delimiter_free dts (EqOp lhs rhs) = (delimiter_free dts lhs \<and> delimiter_free dts rhs)"
| "delimiter_free dts (NotOp child) = delimiter_free dts child"
| "delimiter_free dts (SumOp child) = delimiter_free dts child"
| "delimiter_free dts (AvgOp child) = delimiter_free dts child"

text \<open>The double literals of a tree.\<close>

fun doubles :: "ExprTree \<Rightarrow> double set" where
  "doubles (DoubleLiteral myVal) = {myVal}"
| "doubles e = (\<Union>c \<in> set (children e). doubles c)"

section \<open>Properties\<close>

lemmas rule_defs = binary_def unary_def MinusOp_typeCheck_def PlusOp_typeCheck_def
  TimesOp_typeCheck_def DivideOp_typeCheck_def GtOp_typeCheck_def LtOp_typeCheck_def
  NeqOp_typeCheck_def OrOp_typeCheck_def EqOp_typeCheck_def NotOp_typeCheck_def
  SumOp_typeCheck_def AvgOp_typeCheck_def

subsection \<open>Errors of children\<close>

text \<open>
  C1. A node with children, one of which type-checks to \<open>errType\<close>, type-checks to
  \<open>errType\<close>, and what it writes is what its children write, every child in turn (the
  right child of a binary node also when the left one is the error) and no line of its
  own: its operator's rule is not applied.
\<close>

theorem typeCheck_error_infectious:
  assumes "c \<in> set (children e)"
    and "fst (typeCheck dts allTables tablesToProcess c) = errType"
  shows "typeCheck dts allTables tablesToProcess e =
           (errType,
            concat (map (\<lambda>c. snd (typeCheck dts allTables tablesToProcess c)) (children e)))"
  using assms by (cases e) (auto simp: rule_defs)

theorem typeCheck_error_infectious_witness:
  "Identifier ''o'' ''a'' \<in> set (children (GtOp (Identifier ''o'' ''a'') (SumOp (StringLiteral ''x''))))
   \<and> fst (typeCheck (\<lambda>d. ''0.000000'') Map.empty [] (Identifier ''o'' ''a'')) = errType
   \<and> typeCheck (\<lambda>d. ''0.000000'') Map.empty []
       (GtOp (Identifier ''o'' ''a'') (SumOp (StringLiteral ''x''))) =
     (errType,
      [''ERROR: Table alias '' @ [CHR 0x27] @ ''o'' @ [CHR 0x27] @ '' not found in query'',
       ''ERROR: Cannot apply SUM to non-numeric attribute: string[x]''])"
  using typeCheck_error_infectious [of "Identifier ''o'' ''a''"
      "GtOp (Identifier ''o'' ''a'') (SumOp (StringLiteral ''x''))"
      "\<lambda>d. ''0.000000''" Map.empty "[]"]
  by (simp add: Identifier_typeCheck_def rule_defs)

subsection \<open>Arithmetic\<close>

text \<open>
  C2. For plus, minus, times and divide over children that type-check without error:
  a string operand on either side makes minus, times and divide an error and plus a
  string; a bool operand makes all four an error (plus only when no operand is a string);
  int with int gives int for minus, times and plus; two numeric operands one of which is a
  double give double; divide gives double for any two numeric operands, two ints too.
\<close>

theorem arithmetic_typing:
  assumes "fst (typeCheck dts allTables tablesToProcess lhs) = leftType"
    and "fst (typeCheck dts allTables tablesToProcess rhs) = rightType"
    and "leftType \<noteq> errType" and "rightType \<noteq> errType"
  shows "(leftType = stringType \<or> rightType = stringType \<longrightarrow>
            fst (typeCheck dts allTables tablesToProcess (MinusOp lhs rhs)) = errType
          \<and> fst (typeCheck dts allTables tablesToProcess (TimesOp lhs rhs)) = errType
          \<and> fst (typeCheck dts allTables tablesToProcess (DivideOp lhs rhs)) = errType
          \<and> fst (typeCheck dts allTables tablesToProcess (PlusOp lhs rhs)) = stringType)
       \<and> (leftType = boolType \<or> rightType = boolType \<longrightarrow>
            fst (typeCheck dts allTables tablesToProcess (MinusOp lhs rhs)) = errType
          \<and> fst (typeCheck dts allTables tablesToProcess (TimesOp lhs rhs)) = errType
          \<and> fst (typeCheck dts allTables tablesToProcess (DivideOp lhs rhs)) = errType
          \<and> (leftType \<noteq> stringType \<and> rightType \<noteq> stringType \<longrightarrow>
               fst (typeCheck dts allTables tablesToProcess (PlusOp lhs rhs)) = errType))
       \<and> (leftType = intType \<and> rightType = intType \<longrightarrow>
            fst (typeCheck dts allTables tablesToProcess (MinusOp lhs rhs)) = intType
          \<and> fst (typeCheck dts allTables tablesToProcess (TimesOp lhs rhs)) = intType
          \<and> fst (typeCheck dts allTables tablesToProcess (PlusOp lhs rhs)) = intType)
       \<and> (numeric leftType \<and> numeric rightType
            \<and> (leftType = doubleType \<or> rightType = doubleType) \<longrightarrow>
            fst (typeCheck dts allTables tablesToProcess (MinusOp lhs rhs)) = doubleType
          \<and> fst (typeCheck dts allTables tablesToProcess (TimesOp lhs rhs)) = doubleType
          \<and> fst (typeCheck dts allTables tablesToProcess (PlusOp lhs rhs)) = doubleType)
       \<and> (numeric leftType \<and> numeric rightType \<longrightarrow>
            fst (typeCheck dts allTables tablesToProcess (DivideOp lhs rhs)) = doubleType)"
  using assms by (auto simp: rule_defs numeric_def)

theorem arithmetic_typing_witness:
  "fst (typeCheck (\<lambda>d. ''0.000000'') Map.empty [] (DivideOp (IntLiteral 6) (IntLiteral 3)))
     = doubleType
   \<and> fst (typeCheck (\<lambda>d. ''0.000000'') Map.empty [] (MinusOp (IntLiteral 6) (IntLiteral 3)))
     = intType
   \<and> fst (typeCheck (\<lambda>d. ''0.000000'') Map.empty [] (PlusOp (BoolLiteral True) (StringLiteral ''x'')))
     = stringType
   \<and> fst (typeCheck (\<lambda>d. ''0.000000'') Map.empty [] (TimesOp (BoolLiteral True) (StringLiteral ''x'')))
     = errType
   \<and> fst (typeCheck (\<lambda>d. ''0.000000'') Map.empty [] (PlusOp (IntLiteral 1) (BoolLiteral True)))
     = errType
   \<and> fst (typeCheck (\<lambda>d. ''0.000000'') Map.empty [] (TimesOp (IntLiteral 1) (DoubleLiteral 0)))
     = doubleType"
  using arithmetic_typing [of "\<lambda>d. ''0.000000''" Map.empty "[]" "IntLiteral 6" intType
      "IntLiteral 3" intType]
    arithmetic_typing [of "\<lambda>d. ''0.000000''" Map.empty "[]" "BoolLiteral True" boolType
      "StringLiteral ''x''" stringType]
    arithmetic_typing [of "\<lambda>d. ''0.000000''" Map.empty "[]" "IntLiteral 1" intType
      "BoolLiteral True" boolType]
    arithmetic_typing [of "\<lambda>d. ''0.000000''" Map.empty "[]" "IntLiteral 1" intType
      "DoubleLiteral 0" doubleType]
  by (simp add: numeric_def)

subsection \<open>Comparisons\<close>

text \<open>
  C3. The four comparisons (gt, lt, eq, neq) have one rule over children that type-check
  without error: when either side is a string the result is bool if both are strings and
  an error otherwise; when neither is a string the result is bool if both sides are
  numeric (int or double, in any mix) and an error otherwise.
\<close>

theorem comparison_typing:
  assumes "fst (typeCheck dts allTables tablesToProcess lhs) = leftType"
    and "fst (typeCheck dts allTables tablesToProcess rhs) = rightType"
    and "leftType \<noteq> errType" and "rightType \<noteq> errType"
    and "cmp \<in> {GtOp, LtOp, EqOp, NeqOp}"
  shows "fst (typeCheck dts allTables tablesToProcess (cmp lhs rhs)) =
           (if leftType = stringType \<or> rightType = stringType
            then (if leftType = stringType \<and> rightType = stringType then boolType else errType)
            else (if numeric leftType \<and> numeric rightType then boolType else errType))"
  using assms by (auto simp: rule_defs numeric_def)

theorem comparison_typing_witness:
  "fst (typeCheck (\<lambda>d. ''0.000000'') Map.empty [] (GtOp (StringLiteral ''abc'') (IntLiteral 5)))
     = errType
   \<and> fst (typeCheck (\<lambda>d. ''0.000000'') Map.empty [] (NeqOp (StringLiteral ''abc'') (StringLiteral ''d'')))
     = boolType
   \<and> fst (typeCheck (\<lambda>d. ''0.000000'') Map.empty [] (EqOp (DoubleLiteral 0) (IntLiteral 5)))
     = boolType
   \<and> fst (typeCheck (\<lambda>d. ''0.000000'') Map.empty [] (LtOp (BoolLiteral False) (IntLiteral 5)))
     = errType"
  using comparison_typing [of "\<lambda>d. ''0.000000''" Map.empty "[]" "StringLiteral ''abc''" stringType
      "IntLiteral 5" intType GtOp]
    comparison_typing [of "\<lambda>d. ''0.000000''" Map.empty "[]" "StringLiteral ''abc''" stringType
      "StringLiteral ''d''" stringType NeqOp]
    comparison_typing [of "\<lambda>d. ''0.000000''" Map.empty "[]" "DoubleLiteral 0" doubleType
      "IntLiteral 5" intType EqOp]
    comparison_typing [of "\<lambda>d. ''0.000000''" Map.empty "[]" "BoolLiteral False" boolType
      "IntLiteral 5" intType LtOp]
  by (simp add: numeric_def)

subsection \<open>Aggregates\<close>

text \<open>
  C4. For sum and avg: a child of type string or bool is an error and the error of a
  child is passed on; over a numeric child sum has the child's type (int stays int, double
  stays double) and avg is double; \<open>isAggregate\<close> of both is true whatever the child.
\<close>

theorem aggregate_typing:
  assumes "fst (typeCheck dts allTables tablesToProcess child) = childType"
  shows "(childType = stringType \<or> childType = boolType \<or> childType = errType \<longrightarrow>
            fst (typeCheck dts allTables tablesToProcess (SumOp child)) = errType
          \<and> fst (typeCheck dts allTables tablesToProcess (AvgOp child)) = errType)
       \<and> (numeric childType \<longrightarrow>
            fst (typeCheck dts allTables tablesToProcess (SumOp child)) = childType
          \<and> fst (typeCheck dts allTables tablesToProcess (AvgOp child)) = doubleType)
       \<and> isAggregate (SumOp child) \<and> isAggregate (AvgOp child)"
  using assms by (auto simp: rule_defs numeric_def)

theorem aggregate_typing_witness:
  "fst (typeCheck (\<lambda>d. ''0.000000'') Map.empty [] (SumOp (IntLiteral 4))) = intType
   \<and> fst (typeCheck (\<lambda>d. ''0.000000'') Map.empty [] (AvgOp (IntLiteral 4))) = doubleType
   \<and> fst (typeCheck (\<lambda>d. ''0.000000'') Map.empty [] (SumOp (DoubleLiteral 0))) = doubleType
   \<and> fst (typeCheck (\<lambda>d. ''0.000000'') Map.empty [] (SumOp (BoolLiteral True))) = errType
   \<and> fst (typeCheck (\<lambda>d. ''0.000000'') Map.empty [] (AvgOp (StringLiteral ''x''))) = errType
   \<and> isAggregate (SumOp (IntLiteral 4)) \<and> isAggregate (AvgOp (StringLiteral ''x''))"
  using aggregate_typing [of "\<lambda>d. ''0.000000''" Map.empty "[]" "IntLiteral 4" intType]
    aggregate_typing [of "\<lambda>d. ''0.000000''" Map.empty "[]" "DoubleLiteral 0" doubleType]
    aggregate_typing [of "\<lambda>d. ''0.000000''" Map.empty "[]" "BoolLiteral True" boolType]
    aggregate_typing [of "\<lambda>d. ''0.000000''" Map.empty "[]" "StringLiteral ''x''" stringType]
  by (simp add: numeric_def)

text \<open>
  C10. Aggregates nest freely: over a subtree \<open>x\<close> of numeric type, \<open>sum(sum(x))\<close> has the
  type of \<open>x\<close> and \<open>avg(sum(x))\<close> is double (as are \<open>sum(avg(x))\<close> and \<open>avg(avg(x))\<close>),
  and the nesting writes no line beyond those of \<open>x\<close>.
\<close>

theorem nested_aggregates:
  assumes "numeric (fst (typeCheck dts allTables tablesToProcess x))"
  shows "typeCheck dts allTables tablesToProcess (SumOp (SumOp x)) =
           typeCheck dts allTables tablesToProcess x
       \<and> typeCheck dts allTables tablesToProcess (AvgOp (SumOp x)) =
           (doubleType, snd (typeCheck dts allTables tablesToProcess x))
       \<and> typeCheck dts allTables tablesToProcess (SumOp (AvgOp x)) =
           (doubleType, snd (typeCheck dts allTables tablesToProcess x))
       \<and> typeCheck dts allTables tablesToProcess (AvgOp (AvgOp x)) =
           (doubleType, snd (typeCheck dts allTables tablesToProcess x))"
  using assms by (auto simp: rule_defs numeric_def prod_eq_iff)

theorem nested_aggregates_witness:
  "numeric (fst (typeCheck (\<lambda>d. ''0.000000'') Map.empty [] (PlusOp (IntLiteral 1) (IntLiteral 2))))
   \<and> typeCheck (\<lambda>d. ''0.000000'') Map.empty [] (SumOp (SumOp (PlusOp (IntLiteral 1) (IntLiteral 2))))
       = (intType, [])
   \<and> typeCheck (\<lambda>d. ''0.000000'') Map.empty [] (AvgOp (SumOp (PlusOp (IntLiteral 1) (IntLiteral 2))))
       = (doubleType, [])"
  using nested_aggregates [of "\<lambda>d. ''0.000000''" Map.empty "[]" "PlusOp (IntLiteral 1) (IntLiteral 2)"]
  by (simp add: numeric_def rule_defs)

subsection \<open>Nodes that keep the defaults of the base class\<close>

text \<open>
  C6. The comparisons (gt, lt, eq, neq), or and not keep the defaults of the base class:
  \<open>isAggregate\<close> is false and \<open>getReferencedAttributes\<close> adds nothing, whatever the
  children are --- an aggregate, an attribute reference.
\<close>

theorem comparison_boolean_defaults:
  "\<not> isAggregate (GtOp lhs rhs) \<and> \<not> isAggregate (LtOp lhs rhs)
   \<and> \<not> isAggregate (EqOp lhs rhs) \<and> \<not> isAggregate (NeqOp lhs rhs)
   \<and> \<not> isAggregate (OrOp lhs rhs) \<and> \<not> isAggregate (NotOp child)
   \<and> getReferencedAttributes (GtOp lhs rhs) atts = atts
   \<and> getReferencedAttributes (LtOp lhs rhs) atts = atts
   \<and> getReferencedAttributes (EqOp lhs rhs) atts = atts
   \<and> getReferencedAttributes (NeqOp lhs rhs) atts = atts
   \<and> getReferencedAttributes (OrOp lhs rhs) atts = atts
   \<and> getReferencedAttributes (NotOp child) atts = atts"
  by simp

theorem comparison_boolean_defaults_witness:
  "isAggregate (SumOp (Identifier ''o'' ''a''))
   \<and> \<not> isAggregate (GtOp (SumOp (Identifier ''o'' ''a'')) (IntLiteral 5))
   \<and> \<not> isAggregate (NotOp (EqOp (AvgOp (Identifier ''o'' ''a'')) (IntLiteral 5)))
   \<and> getReferencedAttributes (Identifier ''o'' ''a'') {} = {(''o'', ''a'')}
   \<and> getReferencedAttributes (GtOp (Identifier ''o'' ''a'') (IntLiteral 5)) {} = {}
   \<and> getReferencedAttributes (OrOp (BoolLiteral True) (Identifier ''o'' ''a'')) {} = {}"
  using comparison_boolean_defaults [of "SumOp (Identifier ''o'' ''a'')" "IntLiteral 5"
      "EqOp (AvgOp (Identifier ''o'' ''a'')) (IntLiteral 5)" "{}"]
    comparison_boolean_defaults [of "Identifier ''o'' ''a''" "IntLiteral 5"
      "BoolLiteral True" "{}"]
    comparison_boolean_defaults [of "BoolLiteral True" "Identifier ''o'' ''a''"
      "BoolLiteral True" "{}"]
  by simp

subsection \<open>Referenced attributes\<close>

text \<open>
  C7, as stated, fails: \<open>SumOp\<close> and \<open>AvgOp\<close> do not override
  \<open>getReferencedAttributes\<close>, and the default of the base class adds nothing, so the
  attribute references \<open>[o_a]\<close> and \<open>[c_b]\<close> beneath a sum are not collected.
\<close>

theorem aggregate_drops_attributes:
  "getReferencedAttributes
     (SumOp (PlusOp (Identifier ''o'' ''a'') (Identifier ''c'' ''b''))) {}
   \<noteq> {(''o'', ''a''), (''c'', ''b'')}"
  by simp

text \<open>
  C7, amended. On a tree of leaves under plus, minus, times and divide only,
  \<open>getReferencedAttributes\<close> adds to the set exactly the (alias, attribute) pairs of the
  attribute references of the tree: the arithmetic nodes pass the set through both
  children, an attribute reference inserts its pair, the other leaves add nothing.
\<close>

theorem arithmetic_collects_attributes:
  "arithmetic_only e \<Longrightarrow> getReferencedAttributes e atts = atts \<union> spec_attributeRefs e"
proof (induction e arbitrary: atts)
  case (MinusOp lhs rhs)
  then show ?case by (simp add: Un_assoc)
next
  case (PlusOp lhs rhs)
  then show ?case by (simp add: Un_assoc)
next
  case (TimesOp lhs rhs)
  then show ?case by (simp add: Un_assoc)
next
  case (DivideOp lhs rhs)
  then show ?case by (simp add: Un_assoc)
qed simp_all

theorem arithmetic_collects_attributes_witness:
  "arithmetic_only (PlusOp (Identifier ''o'' ''a'') (TimesOp (IntLiteral 2) (Identifier ''c'' ''b'')))
   \<and> getReferencedAttributes
       (PlusOp (Identifier ''o'' ''a'') (TimesOp (IntLiteral 2) (Identifier ''c'' ''b''))) {}
     = {(''o'', ''a''), (''c'', ''b'')}"
  using arithmetic_collects_attributes
    [of "PlusOp (Identifier ''o'' ''a'') (TimesOp (IntLiteral 2) (Identifier ''c'' ''b''))" "{}"]
  by (simp add: insert_commute)

subsection \<open>Attribute references\<close>

lemma findAlias_first:
  "\<forall>p \<in> set pre. snd p \<noteq> tableName \<Longrightarrow>
     findAlias (pre @ (actualTableName, tableName) # post) tableName = Some actualTableName"
  by (induction pre) auto

lemma findAlias_none:
  "\<forall>p \<in> set tablesToProcess. snd p \<noteq> tableName \<Longrightarrow>
     findAlias tablesToProcess tableName = None"
  by (induction tablesToProcess) auto

text \<open>
  C5. \<open>typeCheck\<close> of an attribute reference resolves the alias to the first binding that
  has it: the bindings after it, another binding of the same alias among them, change
  nothing. When no binding has the alias the result is the error ``alias not found'',
  whatever the catalog holds. Under the binding found, a table name the catalog does not
  hold is an error; else an attribute name the table's schema does not hold is an error;
  else the attribute's type gives the result: bool for a boolean type, and int, double or
  string by the type's name.
\<close>

theorem identifier_resolution_order:
  "((\<forall>p \<in> set pre. snd p \<noteq> tableName) \<longrightarrow>
      typeCheck dts allTables (pre @ (actualTableName, tableName) # post)
        (Identifier tableName attName) =
      typeCheck dts allTables [(actualTableName, tableName)] (Identifier tableName attName))
   \<and> ((\<forall>p \<in> set tablesToProcess. snd p \<noteq> tableName) \<longrightarrow>
      typeCheck dts allTables tablesToProcess (Identifier tableName attName) =
      (errType, [''ERROR: Table alias '' @ [CHR 0x27] @ tableName @ [CHR 0x27]
                   @ '' not found in query'']))
   \<and> (allTables actualTableName = None \<longrightarrow>
      typeCheck dts allTables [(actualTableName, tableName)] (Identifier tableName attName) =
      (errType, [''ERROR: Table '' @ [CHR 0x27] @ actualTableName @ [CHR 0x27]
                   @ '' not found in catalog'']))
   \<and> (allTables actualTableName = Some table \<and> getSchema table attName = None \<longrightarrow>
      typeCheck dts allTables [(actualTableName, tableName)] (Identifier tableName attName) =
      (errType, [''ERROR: Attribute '' @ [CHR 0x27] @ attName @ [CHR 0x27]
                   @ '' not found in table '' @ [CHR 0x27] @ actualTableName]))
   \<and> (allTables actualTableName = Some table
        \<and> getSchema table attName = Some (pos, attType)
        \<and> (isBool attType \<or> att_toString attType \<in> {''int'', ''double'', ''string''}) \<longrightarrow>
      typeCheck dts allTables [(actualTableName, tableName)] (Identifier tableName attName) =
      (if isBool attType then boolType
       else if att_toString attType = ''int'' then intType
       else if att_toString attType = ''double'' then doubleType
       else stringType, []))"
  by (simp add: Identifier_typeCheck_def findAlias_first findAlias_none)

theorem identifier_resolution_order_witness:
  "typeCheck (\<lambda>d. ''0.000000'')
     [''Orders'' \<mapsto> \<lparr>getSchema = [''amount'' \<mapsto> (0, \<lparr>isBool = False, att_toString = ''double''\<rparr>)]\<rparr>,
      ''Customers'' \<mapsto> \<lparr>getSchema = [''amount'' \<mapsto> (0, \<lparr>isBool = False, att_toString = ''string''\<rparr>)]\<rparr>]
     [(''Customers'', ''c''), (''Orders'', ''o''), (''Customers'', ''o'')]
     (Identifier ''o'' ''amount'') = (doubleType, [])
   \<and> typeCheck (\<lambda>d. ''0.000000'')
     [''Orders'' \<mapsto> \<lparr>getSchema = [''amount'' \<mapsto> (0, \<lparr>isBool = False, att_toString = ''double''\<rparr>)]\<rparr>,
      ''Customers'' \<mapsto> \<lparr>getSchema = [''amount'' \<mapsto> (0, \<lparr>isBool = False, att_toString = ''string''\<rparr>)]\<rparr>]
     [(''Customers'', ''c''), (''Orders'', ''o''), (''Customers'', ''o'')]
     (Identifier ''x'' ''amount'') =
     (errType, [''ERROR: Table alias '' @ [CHR 0x27] @ ''x'' @ [CHR 0x27] @ '' not found in query''])
   \<and> typeCheck (\<lambda>d. ''0.000000'')
     [''Orders'' \<mapsto> \<lparr>getSchema = [''amount'' \<mapsto> (0, \<lparr>isBool = False, att_toString = ''double''\<rparr>)]\<rparr>,
      ''Customers'' \<mapsto> \<lparr>getSchema = [''amount'' \<mapsto> (0, \<lparr>isBool = False, att_toString = ''string''\<rparr>)]\<rparr>]
     [(''Lines'', ''o'')] (Identifier ''o'' ''amount'') =
     (errType, [''ERROR: Table '' @ [CHR 0x27] @ ''Lines'' @ [CHR 0x27] @ '' not found in catalog''])
   \<and> typeCheck (\<lambda>d. ''0.000000'')
     [''Orders'' \<mapsto> \<lparr>getSchema = [''amount'' \<mapsto> (0, \<lparr>isBool = False, att_toString = ''double''\<rparr>)]\<rparr>,
      ''Customers'' \<mapsto> \<lparr>getSchema = [''amount'' \<mapsto> (0, \<lparr>isBool = False, att_toString = ''string''\<rparr>)]\<rparr>]
     [(''Orders'', ''o'')] (Identifier ''o'' ''total'') =
     (errType, [''ERROR: Attribute '' @ [CHR 0x27] @ ''total'' @ [CHR 0x27]
                  @ '' not found in table '' @ [CHR 0x27] @ ''Orders''])"
  using identifier_resolution_order [where pre = "[(''Customers'', ''c'')]"
      and tableName = "''o''" and actualTableName = "''Orders''"
      and post = "[(''Customers'', ''o'')]" and attName = "''amount''"
      and dts = "\<lambda>d. ''0.000000''"
      and allTables = "[''Orders'' \<mapsto> \<lparr>getSchema = [''amount'' \<mapsto> (0, \<lparr>isBool = False, att_toString = ''double''\<rparr>)]\<rparr>,
      ''Customers'' \<mapsto> \<lparr>getSchema = [''amount'' \<mapsto> (0, \<lparr>isBool = False, att_toString = ''string''\<rparr>)]\<rparr>]"
      and table = "\<lparr>getSchema = [''amount'' \<mapsto> (0, \<lparr>isBool = False, att_toString = ''double''\<rparr>)]\<rparr>"
      and pos = 0 and attType = "\<lparr>isBool = False, att_toString = ''double''\<rparr>"
      and tablesToProcess = "[(''Orders'', ''o'')]"]
    identifier_resolution_order [where pre = "[]"
      and tableName = "''x''" and actualTableName = "''Orders''"
      and post = "[]" and attName = "''amount''"
      and dts = "\<lambda>d. ''0.000000''"
      and allTables = "[''Orders'' \<mapsto> \<lparr>getSchema = [''amount'' \<mapsto> (0, \<lparr>isBool = False, att_toString = ''double''\<rparr>)]\<rparr>,
      ''Customers'' \<mapsto> \<lparr>getSchema = [''amount'' \<mapsto> (0, \<lparr>isBool = False, att_toString = ''string''\<rparr>)]\<rparr>]"
      and tablesToProcess = "[(''Customers'', ''c''), (''Orders'', ''o''), (''Customers'', ''o'')]"]
    identifier_resolution_order [where pre = "[]"
      and tableName = "''o''" and actualTableName = "''Lines''"
      and post = "[]" and attName = "''amount''"
      and dts = "\<lambda>d. ''0.000000''"
      and allTables = "[''Orders'' \<mapsto> \<lparr>getSchema = [''amount'' \<mapsto> (0, \<lparr>isBool = False, att_toString = ''double''\<rparr>)]\<rparr>,
      ''Customers'' \<mapsto> \<lparr>getSchema = [''amount'' \<mapsto> (0, \<lparr>isBool = False, att_toString = ''string''\<rparr>)]\<rparr>]"
      and tablesToProcess = "[]"]
    identifier_resolution_order [where pre = "[]"
      and tableName = "''o''" and actualTableName = "''Orders''"
      and post = "[]" and attName = "''total''"
      and dts = "\<lambda>d. ''0.000000''"
      and allTables = "[''Orders'' \<mapsto> \<lparr>getSchema = [''amount'' \<mapsto> (0, \<lparr>isBool = False, att_toString = ''double''\<rparr>)]\<rparr>,
      ''Customers'' \<mapsto> \<lparr>getSchema = [''amount'' \<mapsto> (0, \<lparr>isBool = False, att_toString = ''string''\<rparr>)]\<rparr>]"
      and table = "\<lparr>getSchema = [''amount'' \<mapsto> (0, \<lparr>isBool = False, att_toString = ''double''\<rparr>)]\<rparr>"
      and tablesToProcess = "[]"]
  by simp

subsection \<open>Diagnostics\<close>

text \<open>An error found by an operator's own rule comes with a line written.\<close>

lemma operator_errors_written:
  assumes "leftType \<noteq> errType" and "rightType \<noteq> errType"
    and "body \<in> {MinusOp_typeCheck, PlusOp_typeCheck, TimesOp_typeCheck, DivideOp_typeCheck,
           GtOp_typeCheck, LtOp_typeCheck, NeqOp_typeCheck, OrOp_typeCheck, EqOp_typeCheck}"
    and "fst (body leftType rightType) = errType"
  shows "snd (body leftType rightType) \<noteq> []"
  using assms by (auto simp: rule_defs split: if_splits)

lemma unary_errors_written:
  assumes "childType \<noteq> errType"
    and "body \<in> {NotOp_typeCheck, SumOp_typeCheck childString, AvgOp_typeCheck childString}"
    and "fst (body childType) = errType"
  shows "snd (body childType) \<noteq> []"
  using assms by (auto simp: rule_defs split: if_splits)

text \<open>An attribute reference returns the error and writes nothing exactly when alias,
  table and attribute are found and the attribute's type is not boolean and named none
  of int, double, string.\<close>

lemma Identifier_silent_error_iff:
  "Identifier_typeCheck allTables tablesToProcess tableName attName = (errType, []) \<longleftrightarrow>
     (\<exists>actualTableName table pos attType.
        findAlias tablesToProcess tableName = Some actualTableName
      \<and> allTables actualTableName = Some table
      \<and> getSchema table attName = Some (pos, attType)
      \<and> \<not> isBool attType
      \<and> att_toString attType \<notin> {''int'', ''double'', ''string''})"
  by (auto simp: Identifier_typeCheck_def split: option.splits)

text \<open>
  C8 fails at an attribute whose type is not boolean and is named none of int, double,
  string (here \<open>date\<close>): \<open>typeCheck\<close> returns \<open>errType\<close> and writes no line, where
  the three error returns before it in \<^verbatim>\<open>Identifier::typeCheck\<close> each write one.
\<close>

theorem unrecognized_type_silent:
  "typeCheck (\<lambda>d. ''0.000000'')
     [''Orders'' \<mapsto> \<lparr>getSchema = [''placed'' \<mapsto> (0, \<lparr>isBool = False, att_toString = ''date''\<rparr>)]\<rparr>]
     [(''Orders'', ''o'')] (Identifier ''o'' ''placed'') = (errType, [])"
  by (simp add: Identifier_typeCheck_def)

subsection \<open>toString\<close>

text \<open>A literal between two delimiters is built with its text as it is, brackets and
  all.\<close>

lemma StringLiteral_new_strips:
  "StringLiteral_new (opening # myVal @ [closing]) = Some (StringLiteral myVal)"
  by (simp add: StringLiteral_new_def)

text \<open>Two texts free of a character, each followed by it, agree only when they are
  equal and what follows is.\<close>

lemma split_at_delimiter:
  "c \<notin> set xs \<Longrightarrow> c \<notin> set ys \<Longrightarrow> xs @ c # r1 = ys @ c # r2 \<Longrightarrow> xs = ys \<and> r1 = r2"
proof (induction xs arbitrary: ys)
  case Nil
  then show ?case by (cases ys) auto
next
  case (Cons x xs)
  then show ?case by (cases ys) auto
qed

text \<open>The decimal digits of \<^verbatim>\<open>std::to_string(int)\<close>: distinct numbers have distinct
  texts, and none holds \<open>]\<close> or, beyond the sign, \<open>-\<close>.\<close>

lemma digit_char_inj: "n < 10 \<Longrightarrow> m < 10 \<Longrightarrow> digit_char n = digit_char m \<Longrightarrow> n = m"
proof -
  assume n: "n < 10" and m: "m < 10" and eq: "digit_char n = digit_char m"
  from eq have "(of_char (digit_char n) :: nat) = of_char (digit_char m)" by simp
  then have "(48 + n) mod 256 = (48 + m) mod 256" by (simp add: digit_char_def)
  with n m show "n = m" by simp
qed

lemma digit_char_neq:
  assumes "n < 10"
  shows "digit_char n \<noteq> CHR '']''" and "digit_char n \<noteq> CHR ''-''"
proof -
  have "(of_char (digit_char n) :: nat) = (48 + n) mod 256" by (simp add: digit_char_def)
  with assms have v: "(of_char (digit_char n) :: nat) = 48 + n" by simp
  show "digit_char n \<noteq> CHR '']''"
  proof
    assume "digit_char n = CHR '']''"
    then have "(of_char (digit_char n) :: nat) = 93" by simp
    with v assms show False by simp
  qed
  show "digit_char n \<noteq> CHR ''-''"
  proof
    assume "digit_char n = CHR ''-''"
    then have "(of_char (digit_char n) :: nat) = 45" by simp
    with v show False by simp
  qed
qed

lemma to_string_nat_nonempty: "to_string_nat n \<noteq> []"
  by (subst to_string_nat.simps) simp

lemma to_string_nat_chars:
  "CHR '']'' \<notin> set (to_string_nat n) \<and> CHR ''-'' \<notin> set (to_string_nat n)"
proof (induction n rule: to_string_nat.induct)
  case (1 n)
  show ?case
  proof (cases "n < 10")
    case True
    then show ?thesis
      using digit_char_neq [of n] by (subst (1 2) to_string_nat.simps) auto
  next
    case False
    then show ?thesis
      using "1.IH" digit_char_neq [of "n mod 10"]
      by (subst (1 2) to_string_nat.simps) auto
  qed
qed

lemma to_string_nat_inj: "to_string_nat n = to_string_nat m \<Longrightarrow> n = m"
proof (induction n arbitrary: m rule: to_string_nat.induct)
  case (1 n)
  show ?case
  proof (cases "n < 10")
    case n: True
    show ?thesis
    proof (cases "m < 10")
      case True
      with n "1.prems" show ?thesis
        by (simp add: to_string_nat.simps [of n] to_string_nat.simps [of m] digit_char_inj)
    next
      case False
      with n "1.prems" to_string_nat_nonempty [of "m div 10"] show ?thesis
        by (auto simp add: to_string_nat.simps [of n] to_string_nat.simps [of m])
    qed
  next
    case n: False
    show ?thesis
    proof (cases "m < 10")
      case True
      with n "1.prems" to_string_nat_nonempty [of "n div 10"] show ?thesis
        by (auto simp add: to_string_nat.simps [of n] to_string_nat.simps [of m])
    next
      case False
      with n "1.prems" have eq: "to_string_nat (n div 10) = to_string_nat (m div 10)"
        and d: "digit_char (n mod 10) = digit_char (m mod 10)"
        by (simp_all add: to_string_nat.simps [of n] to_string_nat.simps [of m])
      from "1.IH" [OF n eq] have "n div 10 = m div 10" .
      moreover from d have "n mod 10 = m mod 10" by (simp add: digit_char_inj)
      ultimately show ?thesis by (metis div_mult_mod_eq)
    qed
  qed
qed

lemma to_string_int_inj: "to_string_int v = to_string_int w \<Longrightarrow> v = w"
proof -
  assume eq: "to_string_int v = to_string_int w"
  have hd_neq: "\<And>n k. to_string_nat n \<noteq> CHR ''-'' # k"
    using to_string_nat_chars by (metis list.set_intros(1))
  have "sint v = sint w"
  proof (cases "sint v < 0")
    case v: True
    show ?thesis
    proof (cases "sint w < 0")
      case True
      with v eq have "nat (- sint v) = nat (- sint w)"
        by (simp add: to_string_int_def to_string_nat_inj)
      with v True show ?thesis by simp
    next
      case False
      with v eq hd_neq show ?thesis by (simp add: to_string_int_def) metis
    qed
  next
    case v: False
    show ?thesis
    proof (cases "sint w < 0")
      case True
      with v eq hd_neq show ?thesis by (simp add: to_string_int_def)
    next
      case False
      with v eq have "nat (sint v) = nat (sint w)"
        by (simp add: to_string_int_def to_string_nat_inj)
      with v False show ?thesis by simp
    qed
  qed
  then show "v = w" by (rule signed_word_eqI)
qed

lemma to_string_int_chars: "CHR '']'' \<notin> set (to_string_int w)"
  using to_string_nat_chars by (simp add: to_string_int_def)

text \<open>
  No text of a tree is a proper prefix of the text of another: on trees with
  delimiter-free leaves, equal texts followed by anything come from equal trees followed
  by the same. The induction is on the first tree; the first characters tell the kind of
  node.
\<close>

lemma toString_prefix_free:
  assumes inj: "inj_on dts D"
  shows "delimiter_free dts e1 \<Longrightarrow> delimiter_free dts e2 \<Longrightarrow>
         doubles e1 \<subseteq> D \<Longrightarrow> doubles e2 \<subseteq> D \<Longrightarrow>
         toString dts e1 @ r1 = toString dts e2 @ r2 \<Longrightarrow> e1 = e2 \<and> r1 = r2"
proof (induction e1 arbitrary: e2 r1 r2)
  case (BoolLiteral x)
  from BoolLiteral.prems(5) show ?case
    by (cases e2) (simp_all split: if_splits)
next
  case (DoubleLiteral x)
  show ?case
  proof (cases e2)
    case (DoubleLiteral y)
    with DoubleLiteral.prems have "dts x @ CHR '']'' # r1 = dts y @ CHR '']'' # r2"
      and "CHR '']'' \<notin> set (dts x)" and "CHR '']'' \<notin> set (dts y)" by simp_all
    then have eq: "dts x = dts y \<and> r1 = r2" by (rule split_at_delimiter [rotated 2])
    from DoubleLiteral.prems \<open>e2 = DoubleLiteral y\<close> have "x \<in> D" and "y \<in> D" by simp_all
    with inj eq have "x = y" by (simp add: inj_on_def)
    with eq show ?thesis using \<open>e2 = DoubleLiteral y\<close> by simp
  qed (use DoubleLiteral.prems(5) in \<open>simp_all split: if_splits\<close>)
next
  case (IntLiteral x)
  show ?case
  proof (cases e2)
    case (IntLiteral y)
    with IntLiteral.prems
    have "to_string_int x @ CHR '']'' # r1 = to_string_int y @ CHR '']'' # r2" by simp
    moreover note to_string_int_chars [of x] to_string_int_chars [of y]
    ultimately have eq: "to_string_int x = to_string_int y \<and> r1 = r2"
      by (rule split_at_delimiter [rotated 2])
    then have "x = y" by (simp add: to_string_int_inj)
    with eq show ?thesis using \<open>e2 = IntLiteral y\<close> by simp
  qed (use IntLiteral.prems(5) in \<open>simp_all split: if_splits\<close>)
next
  case (StringLiteral x)
  show ?case
  proof (cases e2)
    case (StringLiteral y)
    with StringLiteral.prems have "x @ CHR '']'' # r1 = y @ CHR '']'' # r2"
      and "CHR '']'' \<notin> set x" and "CHR '']'' \<notin> set y" by simp_all
    then have "x = y \<and> r1 = r2" by (rule split_at_delimiter [rotated 2])
    then show ?thesis using \<open>e2 = StringLiteral y\<close> by simp
  qed (use StringLiteral.prems(5) in \<open>simp_all split: if_splits\<close>)
next
  case (Identifier t a)
  show ?case
  proof (cases e2)
    case (Identifier t' a')
    with Identifier.prems
    have "t @ CHR ''_'' # (a @ CHR '']'' # r1) = t' @ CHR ''_'' # (a' @ CHR '']'' # r2)"
      and "CHR ''_'' \<notin> set t" and "CHR ''_'' \<notin> set t'" by simp_all
    then have t: "t = t' \<and> a @ CHR '']'' # r1 = a' @ CHR '']'' # r2"
      by (rule split_at_delimiter [rotated 2])
    then have "a @ CHR '']'' # r1 = a' @ CHR '']'' # r2" ..
    moreover from Identifier.prems \<open>e2 = Identifier t' a'\<close>
    have "CHR '']'' \<notin> set a" and "CHR '']'' \<notin> set a'" by simp_all
    ultimately have "a = a' \<and> r1 = r2" by (rule split_at_delimiter [rotated 2])
    with t show ?thesis using \<open>e2 = Identifier t' a'\<close> by simp
  qed (use Identifier.prems(5) in \<open>simp_all split: if_splits\<close>)
next
  case (MinusOp lhs rhs)
  show ?case
  proof (cases e2)
    case e2: (MinusOp lhs' rhs')
    from MinusOp.prems(5) have
      "toString dts lhs @ ('', '' @ toString dts rhs @ '')'' @ r1)
       = toString dts lhs' @ ('', '' @ toString dts rhs' @ '')'' @ r2)"
      unfolding e2 by simp
    moreover from MinusOp.prems(1-4)
    have "delimiter_free dts lhs" "delimiter_free dts lhs'"
      "doubles lhs \<subseteq> D" "doubles lhs' \<subseteq> D"
      and r: "delimiter_free dts rhs" "delimiter_free dts rhs'"
      "doubles rhs \<subseteq> D" "doubles rhs' \<subseteq> D"
      unfolding e2 by simp_all
    ultimately have l: "lhs = lhs' \<and> '', '' @ toString dts rhs @ '')'' @ r1
        = '', '' @ toString dts rhs' @ '')'' @ r2"
      by (intro MinusOp.IH(1))
    then have "toString dts rhs @ ('')'' @ r1) = toString dts rhs' @ ('')'' @ r2)" by simp
    with r have "rhs = rhs' \<and> '')'' @ r1 = '')'' @ r2" by (intro MinusOp.IH(2))
    with l show ?thesis unfolding e2 by simp
  qed (use MinusOp.prems(5) in \<open>simp_all split: if_splits\<close>)
next
  case (PlusOp lhs rhs)
  show ?case
  proof (cases e2)
    case e2: (PlusOp lhs' rhs')
    from PlusOp.prems(5) have
      "toString dts lhs @ ('', '' @ toString dts rhs @ '')'' @ r1)
       = toString dts lhs' @ ('', '' @ toString dts rhs' @ '')'' @ r2)"
      unfolding e2 by simp
    moreover from PlusOp.prems(1-4)
    have "delimiter_free dts lhs" "delimiter_free dts lhs'"
      "doubles lhs \<subseteq> D" "doubles lhs' \<subseteq> D"
      and r: "delimiter_free dts rhs" "delimiter_free dts rhs'"
      "doubles rhs \<subseteq> D" "doubles rhs' \<subseteq> D"
      unfolding e2 by simp_all
    ultimately have l: "lhs = lhs' \<and> '', '' @ toString dts rhs @ '')'' @ r1
        = '', '' @ toString dts rhs' @ '')'' @ r2"
      by (intro PlusOp.IH(1))
    then have "toString dts rhs @ ('')'' @ r1) = toString dts rhs' @ ('')'' @ r2)" by simp
    with r have "rhs = rhs' \<and> '')'' @ r1 = '')'' @ r2" by (intro PlusOp.IH(2))
    with l show ?thesis unfolding e2 by simp
  qed (use PlusOp.prems(5) in \<open>simp_all split: if_splits\<close>)
next
  case (TimesOp lhs rhs)
  show ?case
  proof (cases e2)
    case e2: (TimesOp lhs' rhs')
    from TimesOp.prems(5) have
      "toString dts lhs @ ('', '' @ toString dts rhs @ '')'' @ r1)
       = toString dts lhs' @ ('', '' @ toString dts rhs' @ '')'' @ r2)"
      unfolding e2 by simp
    moreover from TimesOp.prems(1-4)
    have "delimiter_free dts lhs" "delimiter_free dts lhs'"
      "doubles lhs \<subseteq> D" "doubles lhs' \<subseteq> D"
      and r: "delimiter_free dts rhs" "delimiter_free dts rhs'"
      "doubles rhs \<subseteq> D" "doubles rhs' \<subseteq> D"
      unfolding e2 by simp_all
    ultimately have l: "lhs = lhs' \<and> '', '' @ toString dts rhs @ '')'' @ r1
        = '', '' @ toString dts rhs' @ '')'' @ r2"
      by (intro TimesOp.IH(1))
    then have "toString dts rhs @ ('')'' @ r1) = toString dts rhs' @ ('')'' @ r2)" by simp
    with r have "rhs = rhs' \<and> '')'' @ r1 = '')'' @ r2" by (intro TimesOp.IH(2))
    with l show ?thesis unfolding e2 by simp
  qed (use TimesOp.prems(5) in \<open>simp_all split: if_splits\<close>)
next
  case (DivideOp lhs rhs)
  show ?case
  proof (cases e2)
    case e2: (DivideOp lhs' rhs')
    from DivideOp.prems(5) have
      "toString dts lhs @ ('', '' @ toString dts rhs @ '')'' @ r1)
       = toString dts lhs' @ ('', '' @ toString dts rhs' @ '')'' @ r2)"
      unfolding e2 by simp
    moreover from DivideOp.prems(1-4)
    have "delimiter_free dts lhs" "delimiter_free dts lhs'"
      "doubles lhs \<subseteq> D" "doubles lhs' \<subseteq> D"
      and r: "delimiter_free dts rhs" "delimiter_free dts rhs'"
      "doubles rhs \<subseteq> D" "doubles rhs' \<subseteq> D"
      unfolding e2 by simp_all
    ultimately have l: "lhs = lhs' \<and> '', '' @ toString dts rhs @ '')'' @ r1
        = '', '' @ toString dts rhs' @ '')'' @ r2"
      by (intro DivideOp.IH(1))
    then have "toString dts rhs @ ('')'' @ r1) = toString dts rhs' @ ('')'' @ r2)" by simp
    with r have "rhs = rhs' \<and> '')'' @ r1 = '')'' @ r2" by (intro DivideOp.IH(2))
    with l show ?thesis unfolding e2 by simp
  qed (use DivideOp.prems(5) in \<open>simp_all split: if_splits\<close>)
next
  case (GtOp lhs rhs)
  show ?case
  proof (cases e2)
    case e2: (GtOp lhs' rhs')
    from GtOp.prems(5) have
      "toString dts lhs @ ('', '' @ toString dts rhs @ '')'' @ r1)
       = toString dts lhs' @ ('', '' @ toString dts rhs' @ '')'' @ r2)"
      unfolding e2 by simp
    moreover from GtOp.prems(1-4)
    have "delimiter_free dts lhs" "delimiter_free dts lhs'"
      "doubles lhs \<subseteq> D" "doubles lhs' \<subseteq> D"
      and r: "delimiter_free dts rhs" "delimiter_free dts rhs'"
      "doubles rhs \<subseteq> D" "doubles rhs' \<subseteq> D"
      unfolding e2 by simp_all
    ultimately have l: "lhs = lhs' \<and> '', '' @ toString dts rhs @ '')'' @ r1
        = '', '' @ toString dts rhs' @ '')'' @ r2"
      by (intro GtOp.IH(1))
    then have "toString dts rhs @ ('')'' @ r1) = toString dts rhs' @ ('')'' @ r2)" by simp
    with r have "rhs = rhs' \<and> '')'' @ r1 = '')'' @ r2" by (intro GtOp.IH(2))
    with l show ?thesis unfolding e2 by simp
  qed (use GtOp.prems(5) in \<open>simp_all split: if_splits\<close>)
next
  case (LtOp lhs rhs)
  show ?case
  proof (cases e2)
    case e2: (LtOp lhs' rhs')
    from LtOp.prems(5) have
      "toString dts lhs @ ('', '' @ toString dts rhs @ '')'' @ r1)
       = toString dts lhs' @ ('', '' @ toString dts rhs' @ '')'' @ r2)"
      unfolding e2 by simp
    moreover from LtOp.prems(1-4)
    have "delimiter_free dts lhs" "delimiter_free dts lhs'"
      "doubles lhs \<subseteq> D" "doubles lhs' \<subseteq> D"
      and r: "delimiter_free dts rhs" "delimiter_free dts rhs'"
      "doubles rhs \<subseteq> D" "doubles rhs' \<subseteq> D"
      unfolding e2 by simp_all
    ultimately have l: "lhs = lhs' \<and> '', '' @ toString dts rhs @ '')'' @ r1
        = '', '' @ toString dts rhs' @ '')'' @ r2"
      by (intro LtOp.IH(1))
    then have "toString dts rhs @ ('')'' @ r1) = toString dts rhs' @ ('')'' @ r2)" by simp
    with r have "rhs = rhs' \<and> '')'' @ r1 = '')'' @ r2" by (intro LtOp.IH(2))
    with l show ?thesis unfolding e2 by simp
  qed (use LtOp.prems(5) in \<open>simp_all split: if_splits\<close>)
next
  case (NeqOp lhs rhs)
  show ?case
  proof (cases e2)
    case e2: (NeqOp lhs' rhs')
    from NeqOp.prems(5) have
      "toString dts lhs @ ('', '' @ toString dts rhs @ '')'' @ r1)
       = toString dts lhs' @ ('', '' @ toString dts rhs' @ '')'' @ r2)"
      unfolding e2 by simp
    moreover from NeqOp.prems(1-4)
    have "delimiter_free dts lhs" "delimiter_free dts lhs'"
      "doubles lhs \<subseteq> D" "doubles lhs' \<subseteq> D"
      and r: "delimiter_free dts rhs" "delimiter_free dts rhs'"
      "doubles rhs \<subseteq> D" "doubles rhs' \<subseteq> D"
      unfolding e2 by simp_all
    ultimately have l: "lhs = lhs' \<and> '', '' @ toString dts rhs @ '')'' @ r1
        = '', '' @ toString dts rhs' @ '')'' @ r2"
      by (intro NeqOp.IH(1))
    then have "toString dts rhs @ ('')'' @ r1) = toString dts rhs' @ ('')'' @ r2)" by simp
    with r have "rhs = rhs' \<and> '')'' @ r1 = '')'' @ r2" by (intro NeqOp.IH(2))
    with l show ?thesis unfolding e2 by simp
  qed (use NeqOp.prems(5) in \<open>simp_all split: if_splits\<close>)
next
  case (OrOp lhs rhs)
  show ?case
  proof (cases e2)
    case e2: (OrOp lhs' rhs')
    from OrOp.prems(5) have
      "toString dts lhs @ ('', '' @ toString dts rhs @ '')'' @ r1)
       = toString dts lhs' @ ('', '' @ toString dts rhs' @ '')'' @ r2)"
      unfolding e2 by simp
    moreover from OrOp.prems(1-4)
    have "delimiter_free dts lhs" "delimiter_free dts lhs'"
      "doubles lhs \<subseteq> D" "doubles lhs' \<subseteq> D"
      and r: "delimiter_free dts rhs" "delimiter_free dts rhs'"
      "doubles rhs \<subseteq> D" "doubles rhs' \<subseteq> D"
      unfolding e2 by simp_all
    ultimately have l: "lhs = lhs' \<and> '', '' @ toString dts rhs @ '')'' @ r1
        = '', '' @ toString dts rhs' @ '')'' @ r2"
      by (intro OrOp.IH(1))
    then have "toString dts rhs @ ('')'' @ r1) = toString dts rhs' @ ('')'' @ r2)" by simp
    with r have "rhs = rhs' \<and> '')'' @ r1 = '')'' @ r2" by (intro OrOp.IH(2))
    with l show ?thesis unfolding e2 by simp
  qed (use OrOp.prems(5) in \<open>simp_all split: if_splits\<close>)
next
  case (EqOp lhs rhs)
  show ?case
  proof (cases e2)
    case e2: (EqOp lhs' rhs')
    from EqOp.prems(5) have
      "toString dts lhs @ ('', '' @ toString dts rhs @ '')'' @ r1)
       = toString dts lhs' @ ('', '' @ toString dts rhs' @ '')'' @ r2)"
      unfolding e2 by simp
    moreover from EqOp.prems(1-4)
    have "delimiter_free dts lhs" "delimiter_free dts lhs'"
      "doubles lhs \<subseteq> D" "doubles lhs' \<subseteq> D"
      and r: "delimiter_free dts rhs" "delimiter_free dts rhs'"
      "doubles rhs \<subseteq> D" "doubles rhs' \<subseteq> D"
      unfolding e2 by simp_all
    ultimately have l: "lhs = lhs' \<and> '', '' @ toString dts rhs @ '')'' @ r1
        = '', '' @ toString dts rhs' @ '')'' @ r2"
      by (intro EqOp.IH(1))
    then have "toString dts rhs @ ('')'' @ r1) = toString dts rhs' @ ('')'' @ r2)" by simp
    with r have "rhs = rhs' \<and> '')'' @ r1 = '')'' @ r2" by (intro EqOp.IH(2))
    with l show ?thesis unfolding e2 by simp
  qed (use EqOp.prems(5) in \<open>simp_all split: if_splits\<close>)
next
  case (NotOp child)
  show ?case
  proof (cases e2)
    case e2: (NotOp child')
    from NotOp.prems(5) have
      "toString dts child @ ('')'' @ r1) = toString dts child' @ ('')'' @ r2)"
      unfolding e2 by simp
    moreover from NotOp.prems(1-4)
    have "delimiter_free dts child" "delimiter_free dts child'"
      "doubles child \<subseteq> D" "doubles child' \<subseteq> D"
      unfolding e2 by simp_all
    ultimately have "child = child' \<and> '')'' @ r1 = '')'' @ r2" by (intro NotOp.IH)
    then show ?thesis unfolding e2 by simp
  qed (use NotOp.prems(5) in \<open>simp_all split: if_splits\<close>)
next
  case (SumOp child)
  show ?case
  proof (cases e2)
    case e2: (SumOp child')
    from SumOp.prems(5) have
      "toString dts child @ ('')'' @ r1) = toString dts child' @ ('')'' @ r2)"
      unfolding e2 by simp
    moreover from SumOp.prems(1-4)
    have "delimiter_free dts child" "delimiter_free dts child'"
      "doubles child \<subseteq> D" "doubles child' \<subseteq> D"
      unfolding e2 by simp_all
    ultimately have "child = child' \<and> '')'' @ r1 = '')'' @ r2" by (intro SumOp.IH)
    then show ?thesis unfolding e2 by simp
  qed (use SumOp.prems(5) in \<open>simp_all split: if_splits\<close>)
next
  case (AvgOp child)
  show ?case
  proof (cases e2)
    case e2: (AvgOp child')
    from AvgOp.prems(5) have
      "toString dts child @ ('')'' @ r1) = toString dts child' @ ('')'' @ r2)"
      unfolding e2 by simp
    moreover from AvgOp.prems(1-4)
    have "delimiter_free dts child" "delimiter_free dts child'"
      "doubles child \<subseteq> D" "doubles child' \<subseteq> D"
      unfolding e2 by simp_all
    ultimately have "child = child' \<and> '')'' @ r1 = '')'' @ r2" by (intro AvgOp.IH)
    then show ?thesis unfolding e2 by simp
  qed (use AvgOp.prems(5) in \<open>simp_all split: if_splits\<close>)
qed

text \<open>
  C9, as stated, fails: a string literal may hold the characters \<open>toString\<close> puts around
  and between subtrees, and an alias may hold the \<open>_\<close> that separates it from the
  attribute name. The two sums below differ in the kind of their right child (not against
  sum) and have one text, \<open>+ (string[a], sum(string[b], !(string[c]))\<close>; the two attribute
  references both read \<open>[a_b_c]\<close>.
\<close>

theorem toString_not_injective:
  "PlusOp (StringLiteral ''a], sum(string[b'') (NotOp (StringLiteral ''c''))
     \<noteq> PlusOp (StringLiteral ''a'') (SumOp (StringLiteral ''b], !(string[c''))
   \<and> toString (\<lambda>d. ''0.000000'')
         (PlusOp (StringLiteral ''a], sum(string[b'') (NotOp (StringLiteral ''c'')))
     = toString (\<lambda>d. ''0.000000'')
         (PlusOp (StringLiteral ''a'') (SumOp (StringLiteral ''b], !(string[c'')))
   \<and> Identifier ''a_b'' ''c'' \<noteq> Identifier ''a'' ''b_c''
   \<and> toString (\<lambda>d. ''0.000000'') (Identifier ''a_b'' ''c'')
     = toString (\<lambda>d. ''0.000000'') (Identifier ''a'' ''b_c'')"
  by simp

text \<open>
  C9, amended. Over trees whose string literals and attribute names hold no \<open>]\<close>, whose
  aliases hold no \<open>_\<close>, and whose double literals are printed without \<open>]\<close> and
  differently for different values, \<open>toString\<close> is injective: two trees with the same
  text are the same tree.
\<close>

theorem toString_injective:
  assumes "delimiter_free dts e1" and "delimiter_free dts e2"
    and "inj_on dts (doubles e1 \<union> doubles e2)"
    and "toString dts e1 = toString dts e2"
  shows "e1 = e2"
proof -
  from assms(4) have eq: "toString dts e1 @ [] = toString dts e2 @ []" by simp
  have "e1 = e2 \<and> ([]::string) = []"
    by (rule toString_prefix_free [OF assms(3) assms(1) assms(2) _ _ eq]) simp_all
  then show ?thesis ..
qed

theorem toString_injective_witness:
  "delimiter_free (\<lambda>d. ''0.000000'') (SumOp (PlusOp (Identifier ''o'' ''amount'') (DoubleLiteral 0)))
   \<and> delimiter_free (\<lambda>d. ''0.000000'') (AvgOp (PlusOp (Identifier ''o'' ''amount'') (DoubleLiteral 0)))
   \<and> inj_on (\<lambda>d. ''0.000000'')
       (doubles (SumOp (PlusOp (Identifier ''o'' ''amount'') (DoubleLiteral 0)))
        \<union> doubles (AvgOp (PlusOp (Identifier ''o'' ''amount'') (DoubleLiteral 0))))
   \<and> toString (\<lambda>d. ''0.000000'') (SumOp (PlusOp (Identifier ''o'' ''amount'') (DoubleLiteral 0)))
     = ''sum(+ ([o_amount], double[0.000000]))''
   \<and> toString (\<lambda>d. ''0.000000'') (SumOp (PlusOp (Identifier ''o'' ''amount'') (DoubleLiteral 0)))
     \<noteq> toString (\<lambda>d. ''0.000000'') (AvgOp (PlusOp (Identifier ''o'' ''amount'') (DoubleLiteral 0)))"
  using toString_injective [of "\<lambda>d. ''0.000000''"
      "SumOp (PlusOp (Identifier ''o'' ''amount'') (DoubleLiteral 0))"
      "SumOp (PlusOp (Identifier ''o'' ''amount'') (DoubleLiteral 0))"]
    toString_injective [of "\<lambda>d. ''0.000000''"
      "SumOp (PlusOp (Identifier ''o'' ''amount'') (DoubleLiteral 0))"
      "AvgOp (PlusOp (Identifier ''o'' ''amount'') (DoubleLiteral 0))"]
  by simp

end
